theory Spec2Isabelle
  imports Main
begin

section \<open>The content-protection engine of src/index.js\<close>

text \<open>
  The class \<^verbatim>\<open>ContentProtectionAPI\<close> keeps a configuration, a flag and a
  \<^verbatim>\<open>Map\<close> of sessions. Its methods are embedded as functions that take the
  engine state and return the result together with the new state. The four detector
  modules and the helpers of \<^verbatim>\<open>./utils/helpers\<close> are collaborators whose
  code is elsewhere: their outcomes are read from an environment record.
\<close>

subsection \<open>Values\<close>

type_synonym session_id = string

text \<open>The instant read by \<^verbatim>\<open>new Date()\<close>; \<^verbatim>\<open>toISOString\<close> prints it.\<close>

type_synonym timestamp = nat

text \<open>Payloads the engine never looks into (session info, detector details, anomalies).\<close>

type_synonym json = string

text \<open>A rejected promise, with the message of its reason.\<close>

datatype failure = Rejected string

subsection \<open>Configuration (constructor, lines 13-21)\<close>

record raw_config =
  apiKey :: "string option"
  serviceName :: "string option"
  sensitivityLevel :: "string option"
  blockingStrategy :: "string option"
  notificationEndpoint :: "string option"
  loggingLevel :: "string option"

record config =
  apiKey :: "string option"
  serviceName :: "string option"
  sensitivityLevel :: string
  blockingStrategy :: string
  notificationEndpoint :: "string option"
  loggingLevel :: string

text \<open>
  JavaScript truthiness of a value that is a string or \<^verbatim>\<open>undefined\<close>: the
  empty string and \<^verbatim>\<open>undefined\<close> are falsy.
\<close>

definition truthy :: "string option \<Rightarrow> bool" where
  "truthy x = (case x of None \<Rightarrow> False | Some v \<Rightarrow> v \<noteq> [])"

text \<open>\<^verbatim>\<open>x || d\<close> for such a value and a string default.\<close>

definition or_default :: "string option \<Rightarrow> string \<Rightarrow> string" where
  "or_default x d = (if truthy x then the x else d)"

definition make_config :: "raw_config \<Rightarrow> config" where
  "make_config c =
     \<lparr> apiKey = raw_config.apiKey c,
       serviceName = raw_config.serviceName c,
       sensitivityLevel = or_default (raw_config.sensitivityLevel c) ''medium'',
       blockingStrategy = or_default (raw_config.blockingStrategy c) ''immediate'',
       notificationEndpoint = raw_config.notificationEndpoint c,
       loggingLevel = or_default (raw_config.loggingLevel c) ''info'' \<rparr>"

subsection \<open>Sessions, detector results, threats and results\<close>

text \<open>
  A session object is created with \<^verbatim>\<open>info\<close>, \<^verbatim>\<open>startTime\<close> and
  \<^verbatim>\<open>status\<close>; the other three properties are absent (\<open>None\<close>) until a method
  assigns them. The status is the string the code writes.
\<close>

record session =
  info :: json
  startTime :: timestamp
  status :: string
  terminatedReason :: "string option"
  terminatedAt :: "timestamp option"
  closedAt :: "timestamp option"

text \<open>
  Modelled from the spec: the result shapes of the four detectors' \<^verbatim>\<open>checkStatus\<close>
  (the modules under \<^verbatim>\<open>./modules\<close> are not among the sources): VPN
  \<^verbatim>\<open>{detected: bool, details}\<close>, network \<^verbatim>\<open>{suspicious: bool, details}\<close>,
  anomaly \<^verbatim>\<open>{anomalies: sequence}\<close>, fingerprint \<^verbatim>\<open>{valid: bool, details}\<close>.
\<close>

record vpn_status =
  detected :: bool
  details :: json

record network_status =
  suspicious :: bool
  details :: json

record anomaly_status =
  anomalies :: "json list"

record fingerprint_status =
  valid :: bool
  details :: json

datatype detector_result =
    VpnResult vpn_status
  | NetworkResult network_status
  | AnomalyResult anomaly_status
  | FingerprintResult fingerprint_status

record threat =
  type :: string
  details :: detector_result

record invalid_session =
  error :: string
  secure :: bool
  timestamp :: timestamp

record security_status =
  secure :: bool
  timestamp :: timestamp
  sessionId :: session_id
  threats :: "threat list"

text \<open>The two shapes \<^verbatim>\<open>checkSecurityStatus\<close> resolves with.\<close>

datatype check_result =
    InvalidSession invalid_session
  | SecurityStatus security_status

record terminate_result =
  action :: string
  reason :: string
  sessionId :: session_id
  timestamp :: timestamp

record degrade_result =
  action :: string
  sessionId :: session_id
  timestamp :: timestamp

record warning_result =
  action :: string
  sessionId :: session_id
  threats :: "threat list"
  timestamp :: timestamp

datatype breach_response =
    Terminate terminate_result
  | Degrade degrade_result
  | Warn warning_result

record log_data =
  timestamp :: timestamp
  sessionId :: session_id
  eventType :: string
  data :: "threat list"

record notification =
  sessionId :: session_id
  timestamp :: timestamp
  threats :: "threat list"
  action :: string

record init_result =
  sessionId :: session_id
  securityToken :: string
  fingerprintData :: json

text \<open>The keys of \<^verbatim>\<open>this.modules\<close>, in the order the constructor writes them.\<close>

datatype module = vpnDetection | networkAnalysis | anomalyDetection | contentFingerprinting

definition modules :: "module list" where
  "modules = [vpnDetection, networkAnalysis, anomalyDetection, contentFingerprinting]"

subsection \<open>Engine state and collaborators\<close>

text \<open>
  What a breach response does is kept as a trace: \<^verbatim>\<open>handleSecurityBreach\<close> and
  the three strategy methods record their own call on entry, and every call that leaves
  the engine (\<^verbatim>\<open>console.log\<close>, \<^verbatim>\<open>notifySecurityEvent\<close>, a module's
  \<^verbatim>\<open>cleanup\<close>) is recorded where the source makes it.
\<close>

datatype call =
    HandleSecurityBreach session_id "threat list"
  | ConsoleLog log_data
  | NotifySecurityEvent string notification
  | TerminateStream session_id string
  | DegradeStreamQuality session_id
  | IssueWarning session_id "threat list"
  | ModuleCleanup module session_id

text \<open>
  The fields of the object, then the number of clock readings made so far and the trace.
\<close>

record state =
  config :: config
  isInitialized :: bool
  sessions :: "session_id \<rightharpoonup> session"
  dateReads :: nat
  calls :: "call list"

text \<open>
  The collaborators during one operation. \<open>dateNow e n\<close> is what the \<open>n\<close>-th
  reading of the clock returns, so two readings in one method may differ. A detector call
  is given by the settlement of its promise. Modelled from the spec: a module's optional
  \<^verbatim>\<open>cleanup(sessionId)\<close> returns nothing and has no failure mode, so it is given by
  whether the module has the function.
\<close>

record env =
  dateNow :: "nat \<Rightarrow> timestamp"
  generateUniqueId :: session_id
  generateSecurityToken :: "json \<Rightarrow> config \<Rightarrow> string"
  getClientFingerprint :: json
  notifySecurityEvent :: "string \<Rightarrow> notification \<Rightarrow> failure + unit"
  moduleInitialize :: "module \<Rightarrow> json \<Rightarrow> config \<Rightarrow> failure + unit"
  vpnCheckStatus :: "session_id \<Rightarrow> failure + vpn_status"
  networkCheckStatus :: "session_id \<Rightarrow> failure + network_status"
  anomalyCheckStatus :: "session_id \<Rightarrow> failure + anomaly_status"
  fingerprintCheckStatus :: "session_id \<Rightarrow> failure + fingerprint_status"
  moduleHasCleanup :: "module \<Rightarrow> bool"

definition newAPI :: "raw_config \<Rightarrow> state" where
  "newAPI c =
     \<lparr> config = make_config c, isInitialized = False, sessions = Map.empty,
       dateReads = 0, calls = [] \<rparr>"

definition newDate :: "env \<Rightarrow> state \<Rightarrow> timestamp \<times> state" where
  "newDate e s = (dateNow e (dateReads s), s\<lparr>dateReads := Suc (dateReads s)\<rparr>)"

definition record_call :: "call \<Rightarrow> state \<Rightarrow> state" where
  "record_call c s = s\<lparr>calls := calls s @ [c]\<rparr>"

text \<open>
  \<^verbatim>\<open>await Promise.all([a, b, c, d])\<close>: the four values when all four promises
  resolve, a rejection as soon as one rejects.
\<close>

definition promise_all4 ::
  "failure + 'a \<Rightarrow> failure + 'b \<Rightarrow> failure + 'c \<Rightarrow> failure + 'd \<Rightarrow> failure + ('a \<times> 'b \<times> 'c \<times> 'd)"
where
  "promise_all4 a b c d =
     (case a of Inl x \<Rightarrow> Inl x | Inr va \<Rightarrow>
      (case b of Inl x \<Rightarrow> Inl x | Inr vb \<Rightarrow>
       (case c of Inl x \<Rightarrow> Inl x | Inr vc \<Rightarrow>
        (case d of Inl x \<Rightarrow> Inl x | Inr vd \<Rightarrow> Inr (va, vb, vc, vd)))))"

subsection \<open>initialize (lines 34-59)\<close>

definition initialize :: "env \<Rightarrow> json \<Rightarrow> state \<Rightarrow> (failure + init_result) \<times> state" where
  "initialize e sessionInfo s =
     (let sid = generateUniqueId e in
      case promise_all4
             (moduleInitialize e vpnDetection sessionInfo (config s))
             (moduleInitialize e networkAnalysis sessionInfo (config s))
             (moduleInitialize e anomalyDetection sessionInfo (config s))
             (moduleInitialize e contentFingerprinting sessionInfo (config s)) of
        Inl x \<Rightarrow> (Inl x, s)
      | Inr _ \<Rightarrow>
          (let (now, s1) = newDate e s;
               s2 = s1\<lparr>sessions := (sessions s1)(sid \<mapsto>
                      \<lparr> info = sessionInfo, startTime = now, status = ''active'',
                        terminatedReason = None, terminatedAt = None, closedAt = None \<rparr>)\<rparr>;
               s3 = s2\<lparr>isInitialized := True\<rparr>
           in (Inr \<lparr> init_result.sessionId = sid,
                     securityToken = generateSecurityToken e sessionInfo (config s3),
                     fingerprintData = getClientFingerprint e \<rparr>, s3)))"

subsection \<open>logSecurityEvent (lines 187-204)\<close>

definition logSecurityEvent ::
  "env \<Rightarrow> session_id \<Rightarrow> string \<Rightarrow> threat list \<Rightarrow> state \<Rightarrow> log_data \<times> state"
where
  "logSecurityEvent e sid evType dat s =
     (let (now, s1) = newDate e s;
          logData = \<lparr> log_data.timestamp = now, log_data.sessionId = sid,
                      eventType = evType, data = dat \<rparr>;
          lvl = loggingLevel (config s1);
          s2 = (if lvl = ''debug'' \<or> (lvl = ''info'' \<and> evType \<noteq> ''routine'')
                   \<or> (lvl = ''warning'' \<and> evType = ''breach'')
                then record_call (ConsoleLog logData) s1 else s1)
      in (logData, s2))"

subsection \<open>The strategy methods (lines 128-164)\<close>

definition terminateStream ::
  "env \<Rightarrow> session_id \<Rightarrow> string \<Rightarrow> state \<Rightarrow> terminate_result \<times> state"
where
  "terminateStream e sid why s0 =
     (let s = record_call (TerminateStream sid why) s0;
          s1 = (case sessions s sid of
                  None \<Rightarrow> s
                | Some session \<Rightarrow>
                    (let (now, s') = newDate e s;
                         session' = session\<lparr> status := ''terminated'',
                                             terminatedReason := Some why,
                                             terminatedAt := Some now \<rparr>
                     in s'\<lparr>sessions := (sessions s')(sid \<mapsto> session')\<rparr>));
          (now, s2) = newDate e s1
      in (\<lparr> terminate_result.action = ''terminate'', reason = why,
             terminate_result.sessionId = sid, terminate_result.timestamp = now \<rparr>, s2))"

definition degradeStreamQuality :: "env \<Rightarrow> session_id \<Rightarrow> state \<Rightarrow> degrade_result \<times> state" where
  "degradeStreamQuality e sid s0 =
     (let s = record_call (DegradeStreamQuality sid) s0;
          (now, s1) = newDate e s
      in (\<lparr> degrade_result.action = ''degrade'', degrade_result.sessionId = sid,
             degrade_result.timestamp = now \<rparr>, s1))"

definition issueWarning ::
  "env \<Rightarrow> session_id \<Rightarrow> threat list \<Rightarrow> state \<Rightarrow> warning_result \<times> state"
where
  "issueWarning e sid ths s0 =
     (let s = record_call (IssueWarning sid ths) s0;
          (now, s1) = newDate e s
      in (\<lparr> warning_result.action = ''warning'', warning_result.sessionId = sid,
             warning_result.threats = ths, warning_result.timestamp = now \<rparr>, s1))"

subsection \<open>handleSecurityBreach (lines 101-126)\<close>

text \<open>
  The method is \<^verbatim>\<open>async\<close>: the result is the settlement of its promise and the
  state is the one reached when it settles. A rejected notification is thrown at the
  \<^verbatim>\<open>await\<close>, so the \<^verbatim>\<open>switch\<close> below it is not run.
\<close>

text \<open>Lines 105-113: the settlement of the awaited notification, resolved when no
  endpoint is configured.\<close>

definition notifyBackend ::
  "env \<Rightarrow> session_id \<Rightarrow> threat list \<Rightarrow> state \<Rightarrow> (failure + unit) \<times> state"
where
  "notifyBackend e sid ths s1 =
     (if truthy (notificationEndpoint (config s1)) then
        (let endpoint = the (notificationEndpoint (config s1));
             (now, s') = newDate e s1;
             payload = \<lparr> notification.sessionId = sid, notification.timestamp = now,
                         notification.threats = ths,
                         notification.action = blockingStrategy (config s') \<rparr>
         in (notifySecurityEvent e endpoint payload,
             record_call (NotifySecurityEvent endpoint payload) s'))
      else (Inr (), s1))"

text \<open>Lines 115-125: the \<^verbatim>\<open>switch\<close> on the blocking strategy.\<close>

definition applyStrategy ::
  "env \<Rightarrow> session_id \<Rightarrow> threat list \<Rightarrow> state \<Rightarrow> breach_response \<times> state"
where
  "applyStrategy e sid ths s2 =
     (let strategy = blockingStrategy (config s2) in
      if strategy = ''immediate'' then
        (let (r, s3) = terminateStream e sid ''Security violation detected'' s2
         in (Terminate r, s3))
      else if strategy = ''degraded'' then
        (let (r, s3) = degradeStreamQuality e sid s2 in (Degrade r, s3))
      else if strategy = ''warning'' then
        (let (r, s3) = issueWarning e sid ths s2 in (Warn r, s3))
      else
        (let (r, s3) = terminateStream e sid ''Security violation detected'' s2
         in (Terminate r, s3)))"

definition handleSecurityBreach ::
  "env \<Rightarrow> session_id \<Rightarrow> threat list \<Rightarrow> state \<Rightarrow> (failure + breach_response) \<times> state"
where
  "handleSecurityBreach e sid ths s0 =
     (let s = record_call (HandleSecurityBreach sid ths) s0;
          (logData, s1) = logSecurityEvent e sid ''breach'' ths s;
          (sent, s2) = notifyBackend e sid ths s1
      in case sent of
           Inl x \<Rightarrow> (Inl x, s2)
         | Inr _ \<Rightarrow> (let (r, s3) = applyStrategy e sid ths s2 in (Inr r, s3)))"

subsection \<open>checkSecurityStatus (lines 61-99)\<close>

definition push :: "'a list \<Rightarrow> 'a \<Rightarrow> 'a list" where
  "push xs x = xs @ [x]"

text \<open>Lines 70 and 81-84: the array \<^verbatim>\<open>threats\<close> after the four tests.\<close>

definition collectThreats ::
  "vpn_status \<Rightarrow> network_status \<Rightarrow> anomaly_status \<Rightarrow> fingerprint_status \<Rightarrow> threat list"
where
  "collectThreats vpnStatus networkStatus anomalyStatus fingerprintStatus =
     (let t0 = [];
          t1 = (if detected vpnStatus
                then push t0 \<lparr> type = ''vpn'', details = VpnResult vpnStatus \<rparr> else t0);
          t2 = (if suspicious networkStatus
                then push t1 \<lparr> type = ''network'', details = NetworkResult networkStatus \<rparr>
                else t1);
          t3 = (if length (anomalies anomalyStatus) > 0
                then push t2 \<lparr> type = ''anomaly'', details = AnomalyResult anomalyStatus \<rparr>
                else t2);
          t4 = (if \<not> valid fingerprintStatus
                then push t3 \<lparr> type = ''fingerprint'',
                               details = FingerprintResult fingerprintStatus \<rparr>
                else t3)
      in t4)"

text \<open>
  Line 95 calls \<^verbatim>\<open>handleSecurityBreach\<close> without \<^verbatim>\<open>await\<close>: its settlement
  is dropped, and the state returned here is the one reached once that promise has
  settled, with no other operation in between.
\<close>

definition checkSecurityStatus ::
  "env \<Rightarrow> session_id \<Rightarrow> state \<Rightarrow> (failure + check_result) \<times> state"
where
  "checkSecurityStatus e sid s =
     (if sessions s sid = None then
        (let (now, s1) = newDate e s
         in (Inr (InvalidSession \<lparr> error = ''Invalid session'',
                                   invalid_session.secure = False,
                                   invalid_session.timestamp = now \<rparr>), s1))
      else
        (case promise_all4 (vpnCheckStatus e sid) (networkCheckStatus e sid)
                (anomalyCheckStatus e sid) (fingerprintCheckStatus e sid) of
           Inl x \<Rightarrow> (Inl x, s)
         | Inr (vpnStatus, networkStatus, anomalyStatus, fingerprintStatus) \<Rightarrow>
             (let ths = collectThreats vpnStatus networkStatus anomalyStatus fingerprintStatus;
                  (now, s1) = newDate e s;
                  securityStatus = \<lparr> security_status.secure = (length ths = 0),
                                     security_status.timestamp = now,
                                     security_status.sessionId = sid,
                                     security_status.threats = ths \<rparr>;
                  s2 = (if \<not> security_status.secure securityStatus
                        then snd (handleSecurityBreach e sid ths s1) else s1)
              in (Inr (SecurityStatus securityStatus), s2))))"

subsection \<open>cleanup (lines 166-185)\<close>

definition cleanup :: "env \<Rightarrow> session_id \<Rightarrow> state \<Rightarrow> bool \<times> state" where
  "cleanup e sid s =
     (case sessions s sid of
        None \<Rightarrow> (False, s)
      | Some session \<Rightarrow>
          (let (now, s1) = newDate e s;
               session' = session\<lparr> status := ''closed'', closedAt := Some now \<rparr>;
               s2 = s1\<lparr>sessions := (sessions s1)(sid \<mapsto> session')\<rparr>;
               s3 = foldl (\<lambda>st m. if moduleHasCleanup e m
                                    then record_call (ModuleCleanup m sid) st else st)
                          s2 modules
           in (True, s3)))"

section \<open>Vocabulary of the statements\<close>

text \<open>The calls recorded between two states of one run.\<close>

definition new_calls :: "state \<Rightarrow> state \<Rightarrow> call list" where
  "new_calls s s' = drop (length (calls s)) (calls s')"



text \<open>
  The settlement of the awaited notification as \<^verbatim>\<open>handleSecurityBreach\<close> meets it:
  after its own call is recorded and the breach is logged.
\<close>

definition notificationOutcome :: "env \<Rightarrow> session_id \<Rightarrow> threat list \<Rightarrow> state \<Rightarrow> failure + unit" where
  "notificationOutcome e sid ths s =
     fst (notifyBackend e sid ths
            (snd (logSecurityEvent e sid ''breach'' ths
                    (record_call (HandleSecurityBreach sid ths) s))))"

section \<open>Concrete runs\<close>

text \<open>
  Collaborators and engine states on which the theorems are instantiated: detectors that
  report nothing, detectors that report a VPN and one anomaly, a notification sink that
  rejects, a detector whose initialization rejects, and the engine after one
  \<^verbatim>\<open>initialize\<close> under a given blocking strategy and notification endpoint.
\<close>

definition clean_env :: env where
  "clean_env =
     \<lparr> dateNow = (\<lambda>n. 1000 + n),
       generateUniqueId = ''s1'',
       generateSecurityToken = (\<lambda>i c. ''token''),
       getClientFingerprint = ''fp'',
       notifySecurityEvent = (\<lambda>ep p. Inr ()),
       moduleInitialize = (\<lambda>m i c. Inr ()),
       vpnCheckStatus = (\<lambda>sid. Inr \<lparr> detected = False, vpn_status.details = ''v'' \<rparr>),
       networkCheckStatus = (\<lambda>sid. Inr \<lparr> suspicious = False, network_status.details = ''n'' \<rparr>),
       anomalyCheckStatus = (\<lambda>sid. Inr \<lparr> anomalies = [] \<rparr>),
       fingerprintCheckStatus = (\<lambda>sid. Inr \<lparr> valid = True, fingerprint_status.details = ''f'' \<rparr>),
       moduleHasCleanup = (\<lambda>m. m = vpnDetection \<or> m = contentFingerprinting) \<rparr>"

definition vpn_hit :: vpn_status where
  "vpn_hit = \<lparr> detected = True, vpn_status.details = ''v'' \<rparr>"

definition anomaly_hit :: anomaly_status where
  "anomaly_hit = \<lparr> anomalies = [''a1''] \<rparr>"

definition breach_env :: env where
  "breach_env = clean_env\<lparr> vpnCheckStatus := (\<lambda>sid. Inr vpn_hit),
                            anomalyCheckStatus := (\<lambda>sid. Inr anomaly_hit) \<rparr>"

definition rejecting_env :: env where
  "rejecting_env = breach_env\<lparr> notifySecurityEvent := (\<lambda>ep p. Inl (Rejected ''ECONNREFUSED'')) \<rparr>"

definition failing_env :: env where
  "failing_env = clean_env\<lparr> moduleInitialize :=
     (\<lambda>m i c. if m = anomalyDetection then Inl (Rejected ''init failed'') else Inr ()) \<rparr>"

definition raw_with :: "string option \<Rightarrow> string option \<Rightarrow> raw_config" where
  "raw_with strategy endpoint =
     \<lparr> raw_config.apiKey = Some ''key'', raw_config.serviceName = None,
       raw_config.sensitivityLevel = None, raw_config.blockingStrategy = strategy,
       raw_config.notificationEndpoint = endpoint, raw_config.loggingLevel = None \<rparr>"

definition session_with :: "string \<Rightarrow> session" where
  "session_with st = \<lparr> info = ''{}'', startTime = 1000, status = st,
       terminatedReason = None, terminatedAt = None, closedAt = None \<rparr>"

definition state_with :: "string option \<Rightarrow> string option \<Rightarrow> state" where
  "state_with strategy endpoint =
     snd (initialize clean_env ''{}'' (newAPI (raw_with strategy endpoint)))"

definition breach_threats :: "threat list" where
  "breach_threats = [\<lparr> type = ''vpn'', details = VpnResult vpn_hit \<rparr>,
                     \<lparr> type = ''anomaly'', details = AnomalyResult anomaly_hit \<rparr>]"

definition breach_status :: security_status where
  "breach_status = \<lparr> security_status.secure = False, security_status.timestamp = 1001,
       security_status.sessionId = ''s1'', security_status.threats = breach_threats \<rparr>"

definition clean_status :: security_status where
  "clean_status = \<lparr> security_status.secure = True, security_status.timestamp = 1001,
       security_status.sessionId = ''s1'', security_status.threats = [] \<rparr>"

definition closed_state :: state where
  "closed_state = snd (cleanup clean_env ''s1'' (state_with None None))"

definition terminated_state :: state where
  "terminated_state = snd (terminateStream clean_env ''s1'' ''Manual termination'' (state_with None None))"

section \<open>Each stage of the code, by its effect on the state\<close>

lemma logSecurityEvent_frame:
  "sessions (snd (logSecurityEvent e sid ev d s)) = sessions s"
  "config (snd (logSecurityEvent e sid ev d s)) = config s"
  "dateReads (snd (logSecurityEvent e sid ev d s)) = Suc (dateReads s)"
  by (simp_all add: logSecurityEvent_def newDate_def record_call_def Let_def)

lemma logSecurityEvent_calls:
  "calls (snd (logSecurityEvent e sid ev d s)) =
     calls s @ (if loggingLevel (config s) = ''debug''
                   \<or> (loggingLevel (config s) = ''info'' \<and> ev \<noteq> ''routine'')
                   \<or> (loggingLevel (config s) = ''warning'' \<and> ev = ''breach'')
                then [ConsoleLog \<lparr> log_data.timestamp = dateNow e (dateReads s),
                         log_data.sessionId = sid, eventType = ev, data = d \<rparr>] else [])"
  by (simp add: logSecurityEvent_def newDate_def record_call_def Let_def)

lemma notifyBackend_frame:
  "sessions (snd (notifyBackend e sid ths s)) = sessions s"
  "config (snd (notifyBackend e sid ths s)) = config s"
  "dateReads (snd (notifyBackend e sid ths s)) =
     (if truthy (notificationEndpoint (config s)) then Suc (dateReads s) else dateReads s)"
  by (simp_all add: notifyBackend_def newDate_def record_call_def Let_def)

lemma notifyBackend_fst:
  "fst (notifyBackend e sid ths s) =
     (if truthy (notificationEndpoint (config s))
      then notifySecurityEvent e (the (notificationEndpoint (config s)))
             \<lparr> notification.sessionId = sid,
               notification.timestamp = dateNow e (dateReads s),
               notification.threats = ths,
               notification.action = blockingStrategy (config s) \<rparr>
      else Inr ())"
  by (simp add: notifyBackend_def newDate_def record_call_def Let_def)

lemma notifyBackend_calls:
  "calls (snd (notifyBackend e sid ths s)) =
     calls s @ (if truthy (notificationEndpoint (config s))
                then [NotifySecurityEvent (the (notificationEndpoint (config s)))
                        \<lparr> notification.sessionId = sid,
                          notification.timestamp = dateNow e (dateReads s),
                          notification.threats = ths,
                          notification.action = blockingStrategy (config s) \<rparr>]
                else [])"
  by (simp add: notifyBackend_def newDate_def record_call_def Let_def)

lemma terminateStream_calls:
  "calls (snd (terminateStream e sid why s)) = calls s @ [TerminateStream sid why]"
  by (simp add: terminateStream_def newDate_def record_call_def Let_def split: option.splits)

lemma terminateStream_sessions:
  "sessions (snd (terminateStream e sid why s)) =
     (case sessions s sid of
        None \<Rightarrow> sessions s
      | Some x \<Rightarrow> (sessions s)(sid \<mapsto>
                   x\<lparr> status := ''terminated'', terminatedReason := Some why,
                      terminatedAt := Some (dateNow e (dateReads s)) \<rparr>))"
  by (simp add: terminateStream_def newDate_def record_call_def Let_def split: option.splits)

lemma terminateStream_fst:
  "fst (terminateStream e sid why s) =
     \<lparr> terminate_result.action = ''terminate'', reason = why,
       terminate_result.sessionId = sid,
       terminate_result.timestamp =
         dateNow e (if sessions s sid = None then dateReads s else Suc (dateReads s)) \<rparr>"
  by (simp add: terminateStream_def newDate_def record_call_def Let_def split: option.splits)

lemma applyStrategy_sessions:
  "sessions (snd (applyStrategy e sid ths s)) =
     (if blockingStrategy (config s) = ''degraded'' \<or> blockingStrategy (config s) = ''warning''
      then sessions s
      else sessions (snd (terminateStream e sid ''Security violation detected'' s)))"
  by (simp add: applyStrategy_def degradeStreamQuality_def issueWarning_def newDate_def
        record_call_def Let_def case_prod_beta)

lemma applyStrategy_calls:
  "calls (snd (applyStrategy e sid ths s)) =
     calls s @ [if blockingStrategy (config s) = ''degraded'' then DegradeStreamQuality sid
                else if blockingStrategy (config s) = ''warning'' then IssueWarning sid ths
                else TerminateStream sid ''Security violation detected'']"
  by (simp add: applyStrategy_def degradeStreamQuality_def issueWarning_def newDate_def
        record_call_def Let_def case_prod_beta terminateStream_calls)

lemma applyStrategy_fst_terminate:
  "blockingStrategy (config s) \<noteq> ''degraded'' \<Longrightarrow> blockingStrategy (config s) \<noteq> ''warning'' \<Longrightarrow>
   fst (applyStrategy e sid ths s) =
     Terminate (fst (terminateStream e sid ''Security violation detected'' s))"
  by (simp add: applyStrategy_def Let_def case_prod_beta)

lemma handleSecurityBreach_fst:
  "fst (handleSecurityBreach e sid ths s) =
     (case fst (notifyBackend e sid ths
                  (snd (logSecurityEvent e sid ''breach'' ths
                          (record_call (HandleSecurityBreach sid ths) s)))) of
        Inl x \<Rightarrow> Inl x
      | Inr u \<Rightarrow> Inr (fst (applyStrategy e sid ths
                  (snd (notifyBackend e sid ths
                     (snd (logSecurityEvent e sid ''breach'' ths
                             (record_call (HandleSecurityBreach sid ths) s)))))))) "
  by (simp add: handleSecurityBreach_def Let_def case_prod_beta split: sum.splits)

lemma handleSecurityBreach_snd:
  "snd (handleSecurityBreach e sid ths s) =
     (case fst (notifyBackend e sid ths
                  (snd (logSecurityEvent e sid ''breach'' ths
                          (record_call (HandleSecurityBreach sid ths) s)))) of
        Inl x \<Rightarrow> snd (notifyBackend e sid ths
                  (snd (logSecurityEvent e sid ''breach'' ths
                          (record_call (HandleSecurityBreach sid ths) s))))
      | Inr u \<Rightarrow> snd (applyStrategy e sid ths
                  (snd (notifyBackend e sid ths
                     (snd (logSecurityEvent e sid ''breach'' ths
                             (record_call (HandleSecurityBreach sid ths) s)))))))"
  by (simp add: handleSecurityBreach_def Let_def case_prod_beta split: sum.splits)

lemmas stage_simps = logSecurityEvent_frame logSecurityEvent_calls notifyBackend_frame
  notifyBackend_calls applyStrategy_sessions applyStrategy_calls
  terminateStream_sessions terminateStream_calls

lemma record_call_simps:
  "sessions (record_call c s) = sessions s"
  "config (record_call c s) = config s"
  "dateReads (record_call c s) = dateReads s"
  "calls (record_call c s) = calls s @ [c]"
  by (simp_all add: record_call_def)

lemma notificationOutcome_eq:
  "notificationOutcome e sid ths s =
     (if truthy (notificationEndpoint (config s))
      then notifySecurityEvent e (the (notificationEndpoint (config s)))
             \<lparr> notification.sessionId = sid,
               notification.timestamp = dateNow e (Suc (dateReads s)),
               notification.threats = ths,
               notification.action = blockingStrategy (config s) \<rparr>
      else Inr ())"
  by (simp add: notificationOutcome_def notifyBackend_fst stage_simps record_call_simps)


lemma handleSecurityBreach_snd_rejected:
  "notificationOutcome e sid ths s = Inl x \<Longrightarrow>
   snd (handleSecurityBreach e sid ths s) =
     snd (notifyBackend e sid ths
            (snd (logSecurityEvent e sid ''breach'' ths
                    (record_call (HandleSecurityBreach sid ths) s))))"
  by (simp add: handleSecurityBreach_snd notificationOutcome_def)

lemma handleSecurityBreach_snd_resolved:
  "notificationOutcome e sid ths s = Inr u \<Longrightarrow>
   snd (handleSecurityBreach e sid ths s) =
     snd (applyStrategy e sid ths
            (snd (notifyBackend e sid ths
                    (snd (logSecurityEvent e sid ''breach'' ths
                            (record_call (HandleSecurityBreach sid ths) s))))))"
  by (simp add: handleSecurityBreach_snd notificationOutcome_def)

lemma handleSecurityBreach_sessions:
  "sessions (snd (handleSecurityBreach e sid ths s)) =
     (if isl (notificationOutcome e sid ths s)
         \<or> blockingStrategy (config s) = ''degraded'' \<or> blockingStrategy (config s) = ''warning''
      then sessions s
      else (case sessions s sid of
              None \<Rightarrow> sessions s
            | Some x \<Rightarrow> (sessions s)(sid \<mapsto>
                 x\<lparr> status := ''terminated'',
                    terminatedReason := Some ''Security violation detected'',
                    terminatedAt := Some (dateNow e (if truthy (notificationEndpoint (config s))
                                                     then Suc (Suc (dateReads s)) else Suc (dateReads s))) \<rparr>)))"
  by (cases "notificationOutcome e sid ths s")
     (simp_all add: handleSecurityBreach_snd_rejected handleSecurityBreach_snd_resolved
        stage_simps record_call_simps split: option.splits)



lemma checkSecurityStatus_fst:
  "fst (checkSecurityStatus e sid s) =
     (if sessions s sid = None then
        Inr (InvalidSession \<lparr> error = ''Invalid session'', invalid_session.secure = False,
               invalid_session.timestamp = dateNow e (dateReads s) \<rparr>)
      else
        (case promise_all4 (vpnCheckStatus e sid) (networkCheckStatus e sid)
                (anomalyCheckStatus e sid) (fingerprintCheckStatus e sid) of
           Inl x \<Rightarrow> Inl x
         | Inr (v, n, a, f) \<Rightarrow>
             Inr (SecurityStatus
                    \<lparr> security_status.secure = (collectThreats v n a f = []),
                      security_status.timestamp = dateNow e (dateReads s),
                      security_status.sessionId = sid,
                      security_status.threats = collectThreats v n a f \<rparr>)))"
  by (simp add: checkSecurityStatus_def newDate_def Let_def split: sum.splits prod.splits)


lemma promise_all4_Inr:
  "promise_all4 (Inr a) (Inr b) (Inr c) (Inr d) = Inr (a, b, c, d)"
  by (simp add: promise_all4_def)

lemma collectThreats_closed_form:
  "collectThreats v n a f =
     (if detected v then [\<lparr> type = ''vpn'', details = VpnResult v \<rparr>] else []) @
     (if suspicious n then [\<lparr> type = ''network'', details = NetworkResult n \<rparr>] else []) @
     (if anomalies a \<noteq> [] then [\<lparr> type = ''anomaly'', details = AnomalyResult a \<rparr>] else []) @
     (if \<not> valid f then [\<lparr> type = ''fingerprint'', details = FingerprintResult f \<rparr>] else [])"
  by (simp add: collectThreats_def push_def Let_def)

lemma cleanup_known:
  assumes "sessions s sid = Some x"
  shows "fst (cleanup e sid s) = True"
    and "sessions (snd (cleanup e sid s)) =
          (sessions s)(sid \<mapsto> x\<lparr> status := ''closed'', closedAt := Some (dateNow e (dateReads s)) \<rparr>)"
    and "calls (snd (cleanup e sid s)) =
          calls s @ map (\<lambda>m. ModuleCleanup m sid) (filter (moduleHasCleanup e) modules)"
  using assms by (simp_all add: cleanup_def modules_def newDate_def record_call_def Let_def)

lemma module_ex: "(\<exists>m. P m) = (P vpnDetection \<or> P networkAnalysis \<or> P anomalyDetection \<or> P contentFingerprinting)"
  by (metis module.exhaust)

lemma module_all: "(\<forall>m. P m) = (P vpnDetection \<and> P networkAnalysis \<and> P anomalyDetection \<and> P contentFingerprinting)"
  by (metis module.exhaust)

section \<open>The concrete runs, evaluated\<close>

lemma state_with_eq:
  "state_with strategy endpoint =
     \<lparr> config = \<lparr> apiKey = Some ''key'', serviceName = None, sensitivityLevel = ''medium'',
                  blockingStrategy = or_default strategy ''immediate'',
                  notificationEndpoint = endpoint, loggingLevel = ''info'' \<rparr>,
       isInitialized = True,
       sessions = [''s1'' \<mapsto> session_with ''active''],
       dateReads = 1, calls = [] \<rparr>"
  by (simp add: state_with_def initialize_def promise_all4_def clean_env_def newAPI_def
        make_config_def raw_with_def newDate_def session_with_def or_default_def truthy_def Let_def)

lemmas scenario_defs = clean_env_def breach_env_def rejecting_env_def failing_env_def
  vpn_hit_def anomaly_hit_def breach_threats_def breach_status_def session_with_def
  or_default_def truthy_def

lemma closed_state_sessions:
  "sessions closed_state = [''s1'' \<mapsto> (session_with ''active'')\<lparr> status := ''closed'', closedAt := Some 1001 \<rparr>]"
  "dateReads closed_state = 2"
  by (simp_all add: closed_state_def cleanup_def modules_def newDate_def record_call_def
        state_with_eq clean_env_def Let_def)

lemma terminated_state_sessions:
  "sessions terminated_state = [''s1'' \<mapsto> (session_with ''active'')\<lparr> status := ''terminated'',
       terminatedReason := Some ''Manual termination'', terminatedAt := Some 1001 \<rparr>]"
  by (simp add: terminated_state_def terminateStream_sessions state_with_eq clean_env_def)

lemma breach_run:
  "fst (checkSecurityStatus breach_env ''s1'' (state_with strategy endpoint)) = Inr (SecurityStatus breach_status)"
  by (simp add: checkSecurityStatus_fst promise_all4_Inr collectThreats_closed_form
        state_with_eq scenario_defs)

lemma clean_run:
  "fst (checkSecurityStatus clean_env ''s1'' (state_with strategy endpoint)) = Inr (SecurityStatus clean_status)"
  by (simp add: checkSecurityStatus_fst promise_all4_Inr collectThreats_closed_form
        state_with_eq scenario_defs clean_status_def)

lemma breach_outcome:
  "notificationOutcome breach_env ''s1'' breach_threats (state_with strategy None) = Inr ()"
  "notificationOutcome rejecting_env ''s1'' breach_threats (state_with strategy (Some ''https://hook''))
     = Inl (Rejected ''ECONNREFUSED'')"
  by (simp_all add: notificationOutcome_eq state_with_eq truthy_def rejecting_env_def)

section \<open>The claims\<close>

subsection \<open>C1\<close>

text \<open>
  Claim C1, amended. \<^verbatim>\<open>terminateStream\<close> and \<^verbatim>\<open>cleanup\<close> never test the
  status they overwrite: on a session in the store, \<^verbatim>\<open>terminateStream\<close> leaves it
  \<^verbatim>\<open>terminated\<close> and \<^verbatim>\<open>cleanup\<close> leaves it \<^verbatim>\<open>closed\<close>, whatever the
  status was, and no other session is touched. So a terminated session stays terminated under
  \<^verbatim>\<open>terminateStream\<close>, a closed one stays closed under \<^verbatim>\<open>cleanup\<close>, and
  neither call brings a session back to \<^verbatim>\<open>active\<close>; but each call moves a session
  that is in the other terminal state to its own.
\<close>

theorem terminal_status_follows_last_call:
  assumes "sessions s sid = Some x"
  shows "map_option status (sessions (snd (terminateStream e sid why s)) sid) = Some ''terminated'' \<and>
         map_option status (sessions (snd (cleanup e sid s)) sid) = Some ''closed'' \<and>
         (\<forall>k. k \<noteq> sid \<longrightarrow> sessions (snd (terminateStream e sid why s)) k = sessions s k
                        \<and> sessions (snd (cleanup e sid s)) k = sessions s k)"
  using assms by (simp add: terminateStream_sessions cleanup_known)

text \<open>
  The claim as first stated fails: a closed session becomes terminated under
  \<^verbatim>\<open>terminateStream\<close>, and a terminated one becomes closed under \<^verbatim>\<open>cleanup\<close>.
\<close>

theorem closed_session_switches_to_terminated:
  "map_option status (sessions closed_state ''s1'') = Some ''closed'' \<and>
   map_option status
     (sessions (snd (terminateStream clean_env ''s1'' ''Manual termination'' closed_state)) ''s1'')
     = Some ''terminated'' \<and>
   map_option status (sessions terminated_state ''s1'') = Some ''terminated'' \<and>
   map_option status (sessions (snd (cleanup clean_env ''s1'' terminated_state)) ''s1'')
     = Some ''closed''"
  by (simp add: terminateStream_sessions cleanup_known closed_state_sessions
        terminated_state_sessions)

theorem terminal_status_follows_last_call_witness:
  "sessions closed_state ''s1'' =
     Some ((session_with ''active'')\<lparr> status := ''closed'', closedAt := Some 1001 \<rparr>) \<and>
   map_option status
     (sessions (snd (terminateStream clean_env ''s1'' ''Manual termination'' closed_state)) ''s1'')
     = Some ''terminated'' \<and>
   map_option status (sessions (snd (cleanup clean_env ''s1'' closed_state)) ''s1'') = Some ''closed''"
proof -
  have h: "sessions closed_state ''s1'' =
     Some ((session_with ''active'')\<lparr> status := ''closed'', closedAt := Some 1001 \<rparr>)"
    by (simp add: closed_state_sessions)
  from terminal_status_follows_last_call [OF h, of clean_env "''Manual termination''"] h show ?thesis by simp
qed

subsection \<open>C2\<close>

text \<open>
  Claim C2. On a session in the store, when the four detectors resolve, the threats of the
  returned status are: a vpn threat iff \<^verbatim>\<open>detected\<close>, a network threat iff
  \<^verbatim>\<open>suspicious\<close>, an anomaly threat iff \<^verbatim>\<open>anomalies\<close> is not empty, a
  fingerprint threat iff not \<^verbatim>\<open>valid\<close>; each rule on its own, in this order.
\<close>

theorem checkSecurityStatus_threat_rules:
  assumes "sessions s sid \<noteq> None"
    and "vpnCheckStatus e sid = Inr v" and "networkCheckStatus e sid = Inr n"
    and "anomalyCheckStatus e sid = Inr a" and "fingerprintCheckStatus e sid = Inr f"
  shows "\<exists>st. fst (checkSecurityStatus e sid s) = Inr (SecurityStatus st) \<and>
     security_status.threats st =
       (if detected v then [\<lparr> type = ''vpn'', details = VpnResult v \<rparr>] else []) @
       (if suspicious n then [\<lparr> type = ''network'', details = NetworkResult n \<rparr>] else []) @
       (if anomalies a \<noteq> [] then [\<lparr> type = ''anomaly'', details = AnomalyResult a \<rparr>] else []) @
       (if \<not> valid f then [\<lparr> type = ''fingerprint'', details = FingerprintResult f \<rparr>] else []) \<and>
     (''vpn'' \<in> set (map type (security_status.threats st))) = (detected v = True) \<and>
     (''network'' \<in> set (map type (security_status.threats st))) = (suspicious n = True) \<and>
     (''anomaly'' \<in> set (map type (security_status.threats st))) = (anomalies a \<noteq> []) \<and>
     (''fingerprint'' \<in> set (map type (security_status.threats st))) = (valid f = False)"
  using assms
  by (auto simp: checkSecurityStatus_fst promise_all4_Inr collectThreats_closed_form)

theorem checkSecurityStatus_threat_rules_witness:
  "sessions (state_with None None) ''s1'' \<noteq> None \<and>
   fst (checkSecurityStatus breach_env ''s1'' (state_with None None)) = Inr (SecurityStatus breach_status) \<and>
   map type (security_status.threats breach_status) = [''vpn'', ''anomaly'']"
proof -
  have h: "sessions (state_with None None) ''s1'' \<noteq> None" by (simp add: state_with_eq)
  have v: "vpnCheckStatus breach_env ''s1'' = Inr vpn_hit"
    and n: "networkCheckStatus breach_env ''s1'' = Inr \<lparr> suspicious = False, network_status.details = ''n'' \<rparr>"
    and a: "anomalyCheckStatus breach_env ''s1'' = Inr anomaly_hit"
    and f: "fingerprintCheckStatus breach_env ''s1'' = Inr \<lparr> valid = True, fingerprint_status.details = ''f'' \<rparr>"
    by (simp_all add: breach_env_def clean_env_def)
  from checkSecurityStatus_threat_rules [OF h v n a f] obtain st where
    st: "fst (checkSecurityStatus breach_env ''s1'' (state_with None None)) = Inr (SecurityStatus st)"
    and ths: "security_status.threats st =
       (if detected vpn_hit then [\<lparr> type = ''vpn'', details = VpnResult vpn_hit \<rparr>] else []) @
       (if suspicious \<lparr> suspicious = False, network_status.details = ''n'' \<rparr>
        then [\<lparr> type = ''network'', details = NetworkResult \<lparr> suspicious = False, network_status.details = ''n'' \<rparr> \<rparr>] else []) @
       (if anomalies anomaly_hit \<noteq> [] then [\<lparr> type = ''anomaly'', details = AnomalyResult anomaly_hit \<rparr>] else []) @
       (if \<not> valid \<lparr> valid = True, fingerprint_status.details = ''f'' \<rparr>
        then [\<lparr> type = ''fingerprint'', details = FingerprintResult \<lparr> valid = True, fingerprint_status.details = ''f'' \<rparr> \<rparr>] else [])"
    by blast
  have "fst (checkSecurityStatus breach_env ''s1'' (state_with None None)) = Inr (SecurityStatus breach_status)"
    by (simp add: checkSecurityStatus_fst promise_all4_Inr v n a f collectThreats_closed_form
          state_with_eq scenario_defs)
  with st ths h show ?thesis by (simp add: scenario_defs)
qed

subsection \<open>C3\<close>

text \<open>
  Claim C3. In every security status that \<^verbatim>\<open>checkSecurityStatus\<close> returns,
  \<^verbatim>\<open>secure\<close> holds exactly when \<^verbatim>\<open>threats\<close> is empty.
\<close>

theorem checkSecurityStatus_secure_iff_no_threats:
  assumes "fst (checkSecurityStatus e sid s) = Inr (SecurityStatus st)"
  shows "security_status.secure st = (security_status.threats st = [])"
  using assms
  by (auto simp: checkSecurityStatus_fst split: if_splits sum.splits prod.splits)

theorem checkSecurityStatus_secure_iff_no_threats_witness:
  "fst (checkSecurityStatus breach_env ''s1'' (state_with None None)) = Inr (SecurityStatus breach_status) \<and>
   security_status.secure breach_status = (security_status.threats breach_status = []) \<and>
   fst (checkSecurityStatus clean_env ''s1'' (state_with None None)) = Inr (SecurityStatus clean_status) \<and>
   security_status.secure clean_status = (security_status.threats clean_status = [])"
  using checkSecurityStatus_secure_iff_no_threats [OF breach_run [of None None]] checkSecurityStatus_secure_iff_no_threats [OF clean_run [of None None]] breach_run clean_run
  by simp

subsection \<open>C4\<close>



subsection \<open>C5\<close>

text \<open>
  Claim C5, amended. In every run of \<^verbatim>\<open>handleSecurityBreach\<close>, under the strategy
  \<^verbatim>\<open>degraded\<close> or \<^verbatim>\<open>warning\<close> the session store is unchanged. Under
  \<^verbatim>\<open>immediate\<close> or any other value, when no endpoint is configured or the
  notification sent to the endpoint is delivered, and the session is in the store, the run
  resolves with the \<^verbatim>\<open>terminate\<close> response and the session gets the status
  \<^verbatim>\<open>terminated\<close>, the reason \<^verbatim>\<open>Security violation detected\<close> and a
  \<^verbatim>\<open>terminatedAt\<close> stamp read from the clock; nothing else in the store changes.
\<close>

theorem handleSecurityBreach_strategy_effect:
  "(blockingStrategy (config s) = ''degraded'' \<or> blockingStrategy (config s) = ''warning''
      \<longrightarrow> sessions (snd (handleSecurityBreach e sid ths s)) = sessions s) \<and>
   (blockingStrategy (config s) \<noteq> ''degraded'' \<and> blockingStrategy (config s) \<noteq> ''warning''
      \<longrightarrow> (\<forall>x. sessions s sid = Some x \<and>
               (truthy (notificationEndpoint (config s)) \<longrightarrow>
                  notifySecurityEvent e (the (notificationEndpoint (config s)))
                    \<lparr> notification.sessionId = sid,
                      notification.timestamp = dateNow e (Suc (dateReads s)),
                      notification.threats = ths,
                      notification.action = blockingStrategy (config s) \<rparr> = Inr ())
            \<longrightarrow>
              fst (handleSecurityBreach e sid ths s) =
                Inr (Terminate
                  \<lparr> terminate_result.action = ''terminate'',
                    reason = ''Security violation detected'',
                    terminate_result.sessionId = sid,
                    terminate_result.timestamp =
                      dateNow e (if truthy (notificationEndpoint (config s))
                                 then Suc (Suc (Suc (dateReads s))) else Suc (Suc (dateReads s))) \<rparr>) \<and>
              sessions (snd (handleSecurityBreach e sid ths s)) = (sessions s)(sid \<mapsto>
                x\<lparr> status := ''terminated'',
                   terminatedReason := Some ''Security violation detected'',
                   terminatedAt := Some (dateNow e (if truthy (notificationEndpoint (config s))
                                                    then Suc (Suc (dateReads s))
                                                    else Suc (dateReads s))) \<rparr>)))"
proof -
  have frame: "blockingStrategy (config s) = ''degraded'' \<or> blockingStrategy (config s) = ''warning''
      \<Longrightarrow> sessions (snd (handleSecurityBreach e sid ths s)) = sessions s"
    by (simp add: handleSecurityBreach_sessions)
  have fires: "fst (handleSecurityBreach e sid ths s) =
                Inr (Terminate
                  \<lparr> terminate_result.action = ''terminate'',
                    reason = ''Security violation detected'',
                    terminate_result.sessionId = sid,
                    terminate_result.timestamp =
                      dateNow e (if truthy (notificationEndpoint (config s))
                                 then Suc (Suc (Suc (dateReads s))) else Suc (Suc (dateReads s))) \<rparr>) \<and>
              sessions (snd (handleSecurityBreach e sid ths s)) = (sessions s)(sid \<mapsto>
                x\<lparr> status := ''terminated'',
                   terminatedReason := Some ''Security violation detected'',
                   terminatedAt := Some (dateNow e (if truthy (notificationEndpoint (config s))
                                                    then Suc (Suc (dateReads s))
                                                    else Suc (dateReads s))) \<rparr>)"
    if strat: "blockingStrategy (config s) \<noteq> ''degraded''" "blockingStrategy (config s) \<noteq> ''warning''"
      and known: "sessions s sid = Some x"
      and sent: "truthy (notificationEndpoint (config s)) \<longrightarrow>
                  notifySecurityEvent e (the (notificationEndpoint (config s)))
                    \<lparr> notification.sessionId = sid,
                      notification.timestamp = dateNow e (Suc (dateReads s)),
                      notification.threats = ths,
                      notification.action = blockingStrategy (config s) \<rparr> = Inr ()"
    for x
  proof -
    from sent have out: "notificationOutcome e sid ths s = Inr ()"
      by (simp add: notificationOutcome_eq)
    then have out': "fst (notifyBackend e sid ths
            (snd (logSecurityEvent e sid ''breach'' ths
                    (record_call (HandleSecurityBreach sid ths) s)))) = Inr ()"
      by (simp add: notificationOutcome_def)
    have res: "fst (handleSecurityBreach e sid ths s) =
                Inr (Terminate
                  \<lparr> terminate_result.action = ''terminate'',
                    reason = ''Security violation detected'',
                    terminate_result.sessionId = sid,
                    terminate_result.timestamp =
                      dateNow e (if truthy (notificationEndpoint (config s))
                                 then Suc (Suc (Suc (dateReads s))) else Suc (Suc (dateReads s))) \<rparr>)"
      using strat known
      by (simp add: handleSecurityBreach_fst out' applyStrategy_fst_terminate terminateStream_fst
            stage_simps record_call_simps)
    have st: "sessions (snd (handleSecurityBreach e sid ths s)) = (sessions s)(sid \<mapsto>
                x\<lparr> status := ''terminated'',
                   terminatedReason := Some ''Security violation detected'',
                   terminatedAt := Some (dateNow e (if truthy (notificationEndpoint (config s))
                                                    then Suc (Suc (dateReads s))
                                                    else Suc (dateReads s))) \<rparr>)"
      using strat known out by (simp add: handleSecurityBreach_sessions)
    from res st show ?thesis by simp
  qed
  from frame fires show ?thesis by blast
qed

text \<open>
  The claim as first stated fails: under \<^verbatim>\<open>immediate\<close>, with an endpoint
  configured and a notification that rejects, the session stays \<^verbatim>\<open>active\<close>.
\<close>

theorem immediate_strategy_skipped_on_rejected_notification:
  "blockingStrategy (config (state_with None (Some ''https://hook''))) = ''immediate'' \<and>
   sessions (state_with None (Some ''https://hook'')) ''s1'' = Some (session_with ''active'') \<and>
   sessions (snd (handleSecurityBreach rejecting_env ''s1'' breach_threats
                    (state_with None (Some ''https://hook'')))) ''s1''
     = Some (session_with ''active'')"
  by (simp add: handleSecurityBreach_sessions breach_outcome) (simp add: state_with_eq or_default_def truthy_def)

theorem handleSecurityBreach_strategy_effect_witness:
  "blockingStrategy (config (state_with (Some ''degraded'') None)) = ''degraded'' \<and>
   sessions (snd (handleSecurityBreach breach_env ''s1'' breach_threats (state_with (Some ''degraded'') None)))
     = sessions (state_with (Some ''degraded'') None) \<and>
   blockingStrategy (config (state_with None None)) = ''immediate'' \<and>
   sessions (state_with None None) ''s1'' = Some (session_with ''active'') \<and>
   \<not> truthy (notificationEndpoint (config (state_with None None))) \<and>
   sessions (snd (handleSecurityBreach breach_env ''s1'' breach_threats (state_with None None))) ''s1''
     = Some ((session_with ''active'')\<lparr> status := ''terminated'',
               terminatedReason := Some ''Security violation detected'',
               terminatedAt := Some 1002 \<rparr>) \<and>
   blockingStrategy (config (state_with (Some ''bogus'') (Some ''https://hook''))) = ''bogus'' \<and>
   truthy (notificationEndpoint (config (state_with (Some ''bogus'') (Some ''https://hook'')))) \<and>
   fst (handleSecurityBreach breach_env ''s1'' breach_threats
          (state_with (Some ''bogus'') (Some ''https://hook'')))
     = Inr (Terminate \<lparr> terminate_result.action = ''terminate'',
                         reason = ''Security violation detected'',
                         terminate_result.sessionId = ''s1'',
                         terminate_result.timestamp = 1004 \<rparr>) \<and>
   sessions (snd (handleSecurityBreach breach_env ''s1'' breach_threats
                    (state_with (Some ''bogus'') (Some ''https://hook'')))) ''s1''
     = Some ((session_with ''active'')\<lparr> status := ''terminated'',
               terminatedReason := Some ''Security violation detected'',
               terminatedAt := Some 1003 \<rparr>)"
proof -
  let ?d = "state_with (Some ''degraded'') None"
  let ?i = "state_with None None"
  let ?b = "state_with (Some ''bogus'') (Some ''https://hook'')"
  have d: "blockingStrategy (config ?d) = ''degraded''"
    and i: "blockingStrategy (config ?i) = ''immediate''"
    and ik: "sessions ?i ''s1'' = Some (session_with ''active'')"
    and it: "\<not> truthy (notificationEndpoint (config ?i))"
    and b: "blockingStrategy (config ?b) = ''bogus''"
    and bk: "sessions ?b ''s1'' = Some (session_with ''active'')"
    and bt: "truthy (notificationEndpoint (config ?b))"
    by (simp_all add: state_with_eq or_default_def truthy_def)
  have sent: "notifySecurityEvent breach_env ep p = Inr ()" for ep p
    by (simp add: breach_env_def clean_env_def)
  have reads: "dateReads ?i = 1" "dateReads ?b = 1"
    and clock: "dateNow breach_env n = 1000 + n" for n
    by (simp_all add: state_with_eq breach_env_def clean_env_def)
  from handleSecurityBreach_strategy_effect [of ?d breach_env "''s1''" breach_threats] d
  have a: "sessions (snd (handleSecurityBreach breach_env ''s1'' breach_threats ?d)) = sessions ?d"
    by simp
  from handleSecurityBreach_strategy_effect [of ?i breach_env "''s1''" breach_threats] i ik it
  have c: "sessions (snd (handleSecurityBreach breach_env ''s1'' breach_threats ?i)) =
             (sessions ?i)(''s1'' \<mapsto> (session_with ''active'')\<lparr> status := ''terminated'',
                   terminatedReason := Some ''Security violation detected'',
                   terminatedAt := Some 1002 \<rparr>)"
    by (simp add: reads clock)
  from handleSecurityBreach_strategy_effect [of ?b breach_env "''s1''" breach_threats] b bk bt sent
  have e: "fst (handleSecurityBreach breach_env ''s1'' breach_threats ?b)
             = Inr (Terminate \<lparr> terminate_result.action = ''terminate'',
                         reason = ''Security violation detected'',
                         terminate_result.sessionId = ''s1'',
                         terminate_result.timestamp = 1004 \<rparr>) \<and>
           sessions (snd (handleSecurityBreach breach_env ''s1'' breach_threats ?b)) =
             (sessions ?b)(''s1'' \<mapsto> (session_with ''active'')\<lparr> status := ''terminated'',
                   terminatedReason := Some ''Security violation detected'',
                   terminatedAt := Some 1003 \<rparr>)"
    by (simp add: reads clock)
  from d i ik it b bt a c e show ?thesis by simp
qed

subsection \<open>C6\<close>

text \<open>
  Claim C6. When one of the four detector initializations rejects, \<^verbatim>\<open>initialize\<close>
  rejects and the engine state, the session store with it, is unchanged. When all four
  resolve, the store gets, under the generated id, a record with the given info, a
  \<^verbatim>\<open>startTime\<close> and the status \<^verbatim>\<open>active\<close>.
\<close>

theorem initialize_all_or_nothing:
  "((\<exists>m. isl (moduleInitialize e m i (config s))) \<longrightarrow>
       isl (fst (initialize e i s)) \<and> snd (initialize e i s) = s) \<and>
   ((\<forall>m. \<not> isl (moduleInitialize e m i (config s))) \<longrightarrow>
       fst (initialize e i s) =
         Inr \<lparr> init_result.sessionId = generateUniqueId e,
               securityToken = generateSecurityToken e i (config s),
               fingerprintData = getClientFingerprint e \<rparr> \<and>
       sessions (snd (initialize e i s)) =
         (sessions s)(generateUniqueId e \<mapsto>
            \<lparr> info = i, startTime = dateNow e (dateReads s), status = ''active'',
              terminatedReason = None, terminatedAt = None, closedAt = None \<rparr>))"
  unfolding module_ex module_all
  by (auto simp: initialize_def promise_all4_def newDate_def Let_def split: sum.splits)

theorem initialize_all_or_nothing_witness:
  "isl (moduleInitialize failing_env anomalyDetection ''{}'' (config (newAPI (raw_with None None)))) \<and>
   isl (fst (initialize failing_env ''{}'' (newAPI (raw_with None None)))) \<and>
   snd (initialize failing_env ''{}'' (newAPI (raw_with None None))) = newAPI (raw_with None None) \<and>
   sessions (snd (initialize clean_env ''{}'' (newAPI (raw_with None None)))) ''s1''
     = Some (session_with ''active'')"
proof -
  have f: "\<exists>m. isl (moduleInitialize failing_env m ''{}'' (config (newAPI (raw_with None None))))"
    by (rule exI [of _ anomalyDetection]) (simp add: failing_env_def)
  have c: "\<forall>m. \<not> isl (moduleInitialize clean_env m ''{}'' (config (newAPI (raw_with None None))))"
    by (simp add: clean_env_def)
  from initialize_all_or_nothing [of failing_env "''{}''" "newAPI (raw_with None None)"] f
  have a: "isl (fst (initialize failing_env ''{}'' (newAPI (raw_with None None)))) \<and>
           snd (initialize failing_env ''{}'' (newAPI (raw_with None None))) = newAPI (raw_with None None)"
    by blast
  from initialize_all_or_nothing [of clean_env "''{}''" "newAPI (raw_with None None)"] c
  have b: "sessions (snd (initialize clean_env ''{}'' (newAPI (raw_with None None)))) =
         (sessions (newAPI (raw_with None None)))(generateUniqueId clean_env \<mapsto>
            \<lparr> info = ''{}'', startTime = dateNow clean_env (dateReads (newAPI (raw_with None None))),
              status = ''active'', terminatedReason = None, terminatedAt = None, closedAt = None \<rparr>)"
    by blast
  from a b show ?thesis by (simp add: failing_env_def clean_env_def newAPI_def session_with_def)
qed

subsection \<open>C7\<close>

text \<open>
  Claim C7. For an id that is not in the store, \<^verbatim>\<open>checkSecurityStatus\<close> returns the
  object with \<^verbatim>\<open>error\<close> = "Invalid session", \<^verbatim>\<open>secure\<close> = false and a
  timestamp (the shape has no \<^verbatim>\<open>threats\<close>), and nothing but the clock reading
  changes: the store and the trace are the same.
\<close>

theorem checkSecurityStatus_unknown_session:
  assumes "sessions s sid = None"
  shows "checkSecurityStatus e sid s =
           (Inr (InvalidSession \<lparr> error = ''Invalid session'', invalid_session.secure = False,
                   invalid_session.timestamp = dateNow e (dateReads s) \<rparr>),
            s\<lparr>dateReads := Suc (dateReads s)\<rparr>)
         \<and> sessions (snd (checkSecurityStatus e sid s)) = sessions s
         \<and> calls (snd (checkSecurityStatus e sid s)) = calls s"
  using assms by (simp add: checkSecurityStatus_def newDate_def)

theorem checkSecurityStatus_unknown_session_witness:
  "sessions (state_with None None) ''zz'' = None \<and>
   checkSecurityStatus clean_env ''zz'' (state_with None None) =
     (Inr (InvalidSession \<lparr> error = ''Invalid session'', invalid_session.secure = False,
             invalid_session.timestamp = 1001 \<rparr>),
      (state_with None None)\<lparr>dateReads := 2\<rparr>) \<and>
   sessions (snd (checkSecurityStatus clean_env ''zz'' (state_with None None)))
     = sessions (state_with None None)"
proof -
  have h: "sessions (state_with None None) ''zz'' = None" by (simp add: state_with_eq)
  from checkSecurityStatus_unknown_session [OF h, of clean_env] h show ?thesis
    by (simp add: state_with_eq clean_env_def)
qed

subsection \<open>C8\<close>

text \<open>
  Claim C8. \<^verbatim>\<open>cleanup\<close> on an id that is not in the store returns false and changes
  nothing. On a session in the store, closed already or not, it returns true, sets the status
  to \<^verbatim>\<open>closed\<close>, stamps \<^verbatim>\<open>closedAt\<close> with the clock, and calls
  \<^verbatim>\<open>cleanup\<close> on exactly the modules that have one, in the order of
  \<^verbatim>\<open>this.modules\<close>.
\<close>

theorem cleanup_unknown_known_closed:
  "(sessions s sid = None \<longrightarrow> cleanup e sid s = (False, s)) \<and>
   (\<forall>x. sessions s sid = Some x \<longrightarrow>
      fst (cleanup e sid s) = True \<and>
      sessions (snd (cleanup e sid s)) =
        (sessions s)(sid \<mapsto> x\<lparr> status := ''closed'', closedAt := Some (dateNow e (dateReads s)) \<rparr>) \<and>
      new_calls s (snd (cleanup e sid s)) =
        map (\<lambda>m. ModuleCleanup m sid) (filter (moduleHasCleanup e) modules))"
  by (simp add: cleanup_known new_calls_def) (simp add: cleanup_def)

theorem cleanup_unknown_known_closed_witness:
  "sessions (state_with None None) ''zz'' = None \<and>
   cleanup clean_env ''zz'' (state_with None None) = (False, state_with None None) \<and>
   sessions closed_state ''s1'' =
     Some ((session_with ''active'')\<lparr> status := ''closed'', closedAt := Some 1001 \<rparr>) \<and>
   fst (cleanup clean_env ''s1'' closed_state) = True \<and>
   sessions (snd (cleanup clean_env ''s1'' closed_state)) ''s1'' =
     Some ((session_with ''active'')\<lparr> status := ''closed'', closedAt := Some 1002 \<rparr>) \<and>
   new_calls closed_state (snd (cleanup clean_env ''s1'' closed_state)) =
     [ModuleCleanup vpnDetection ''s1'', ModuleCleanup contentFingerprinting ''s1'']"
proof -
  have u: "sessions (state_with None None) ''zz'' = None" by (simp add: state_with_eq)
  have k: "sessions closed_state ''s1'' =
     Some ((session_with ''active'')\<lparr> status := ''closed'', closedAt := Some 1001 \<rparr>)"
    by (simp add: closed_state_sessions)
  from cleanup_unknown_known_closed [of "state_with None None" "''zz''" clean_env] u
  have a: "cleanup clean_env ''zz'' (state_with None None) = (False, state_with None None)" by blast
  from cleanup_unknown_known_closed [of closed_state "''s1''" clean_env] k
  have b: "fst (cleanup clean_env ''s1'' closed_state) = True \<and>
      sessions (snd (cleanup clean_env ''s1'' closed_state)) =
        (sessions closed_state)(''s1'' \<mapsto> ((session_with ''active'')\<lparr> status := ''closed'', closedAt := Some 1001 \<rparr>)
            \<lparr> status := ''closed'', closedAt := Some (dateNow clean_env (dateReads closed_state)) \<rparr>) \<and>
      new_calls closed_state (snd (cleanup clean_env ''s1'' closed_state)) =
        map (\<lambda>m. ModuleCleanup m ''s1'') (filter (moduleHasCleanup clean_env) modules)"
    by blast
  from u k a b show ?thesis
    by (simp add: closed_state_sessions clean_env_def modules_def)
qed

subsection \<open>C9\<close>



subsection \<open>C10\<close>

text \<open>
  Claim C10. For an id that is not in the store, \<^verbatim>\<open>terminateStream\<close> leaves the
  store unchanged and still returns the object with \<^verbatim>\<open>action\<close> = "terminate", the
  reason, the id and a timestamp; up to the timestamp it is the object returned from any
  other state, in particular one where the session exists.
\<close>

theorem terminateStream_unknown_session:
  assumes "sessions s sid = None"
  shows "terminateStream e sid why s =
           (\<lparr> terminate_result.action = ''terminate'', reason = why,
               terminate_result.sessionId = sid,
               terminate_result.timestamp = dateNow e (dateReads s) \<rparr>,
            s\<lparr>calls := calls s @ [TerminateStream sid why], dateReads := Suc (dateReads s)\<rparr>)
         \<and> sessions (snd (terminateStream e sid why s)) = sessions s
         \<and> (\<forall>s2. (fst (terminateStream e sid why s2))\<lparr>terminate_result.timestamp := 0\<rparr>
                 = (fst (terminateStream e sid why s))\<lparr>terminate_result.timestamp := 0\<rparr>)"
  using assms by (simp add: terminateStream_fst terminateStream_def newDate_def record_call_def Let_def)

theorem terminateStream_unknown_session_witness:
  "sessions (state_with None None) ''zz'' = None \<and>
   fst (terminateStream clean_env ''zz'' ''Manual termination'' (state_with None None)) =
     \<lparr> terminate_result.action = ''terminate'', reason = ''Manual termination'',
       terminate_result.sessionId = ''zz'', terminate_result.timestamp = 1001 \<rparr> \<and>
   sessions (snd (terminateStream clean_env ''zz'' ''Manual termination'' (state_with None None)))
     = sessions (state_with None None)"
proof -
  have h: "sessions (state_with None None) ''zz'' = None" by (simp add: state_with_eq)
  from terminateStream_unknown_session [OF h, of clean_env "''Manual termination''"] h show ?thesis
    by (simp add: state_with_eq clean_env_def)
qed

end
